theory Spec2Isabelle
  imports Complex_Main "HOL-Library.Multiset"
begin

section \<open>Strings and numbers of the two source languages\<close>

text \<open>
  Strings are lists of code units, restricted to the 8-bit range (Latin-1 code points),
  which is enough for every literal of the sources: the only code points outside ASCII are
  those of the square-metre unit.

  Numeric fields of a listing are modelled at integer values. A JavaScript number that
  holds an integer is rendered by a template literal as its decimal digits, with a minus
  sign when negative; Go's \<open>%d\<close> renders an \<open>int\<close> the same way, and \<open>%.2f\<close> renders
  an integer-valued \<open>float64\<close> as the digits followed by \<open>.00\<close>.
\<close>

definition digit_char :: "nat \<Rightarrow> char" where
  "digit_char d = ''0123456789'' ! d"

fun string_of_nat :: "nat \<Rightarrow> string" where
  "string_of_nat n =
     (if n < 10 then [digit_char n]
      else string_of_nat (n div 10) @ [digit_char (n mod 10)])"

declare string_of_nat.simps [simp del]

definition string_of_int :: "int \<Rightarrow> string" where
  "string_of_int i = (if i < 0 then ''-'' @ string_of_nat (nat (- i)) else string_of_nat (nat i))"

text \<open>Go: \<open>fmt.Sprintf("%.2f", x)\<close> at an integer-valued \<open>x\<close>.\<close>

definition sprintf_2f :: "int \<Rightarrow> string" where
  "sprintf_2f x = string_of_int x @ ''.00''"

text \<open>
  The unit suffix of the area lines. The Go source writes it \<open>" m\<twosuperior>"\<close> (U+00B2). The
  TypeScript source file holds two code points after the \<open>m\<close>, U+00C2 and U+00B2, and
  the literal is modelled as the file has it.
\<close>

definition go_square_metres :: string where
  "go_square_metres = [CHR '' '', CHR ''m'', CHR 0xB2]"

definition square_metres :: string where
  "square_metres = [CHR '' '', CHR ''m'', CHR 0xC2, CHR 0xB2]"

text \<open>\<open>Array.prototype.join\<close> and \<open>strings.Join\<close>.\<close>

fun join :: "string \<Rightarrow> string list \<Rightarrow> string" where
  "join sep [] = []"
| "join sep [x] = x"
| "join sep (x # y # ys) = x @ sep @ join sep (y # ys)"

text \<open>\<open>String.prototype.startsWith\<close>, \<open>endsWith\<close> and \<open>includes\<close> (here \<open>str_includes\<close>);
  the last is also \<open>strings.Contains\<close>.\<close>

fun startsWith :: "string \<Rightarrow> string \<Rightarrow> bool" where
  "startsWith s [] = True"
| "startsWith [] (p # ps) = False"
| "startsWith (c # cs) (p # ps) = (c = p \<and> startsWith cs ps)"

definition endsWith :: "string \<Rightarrow> string \<Rightarrow> bool" where
  "endsWith s suffix = startsWith (rev s) (rev suffix)"

fun str_includes :: "string \<Rightarrow> string \<Rightarrow> bool" where
  "str_includes [] p = (p = [])"
| "str_includes (c # cs) p = (startsWith (c # cs) p \<or> str_includes cs p)"

text \<open>
  \<open>String.prototype.trim\<close> removes white space and line terminators at both ends; within
  the 8-bit range these are TAB, LF, VT, FF, CR, SP and NBSP. Go's \<open>strings.TrimSpace\<close>
  removes what \<open>unicode.IsSpace\<close> accepts, which within the 8-bit range is the same set
  and NEL (U+0085).
\<close>

definition js_white_space :: "char \<Rightarrow> bool" where
  "js_white_space c = (c \<in> set [CHR 0x09, CHR 0x0A, CHR 0x0B, CHR 0x0C, CHR 0x0D, CHR 0x20, CHR 0xA0])"

definition trim :: "string \<Rightarrow> string" where
  "trim s = rev (dropWhile js_white_space (rev (dropWhile js_white_space s)))"

definition unicode_IsSpace :: "char \<Rightarrow> bool" where
  "unicode_IsSpace c =
     (c \<in> set [CHR 0x09, CHR 0x0A, CHR 0x0B, CHR 0x0C, CHR 0x0D, CHR 0x20, CHR 0x85, CHR 0xA0])"

definition TrimSpace :: "string \<Rightarrow> string" where
  "TrimSpace s = rev (dropWhile unicode_IsSpace (rev (dropWhile unicode_IsSpace s)))"

text \<open>
  \<open>strings.ToLower\<close>: within the 8-bit range the upper-case letters are A to Z and
  U+00C0 to U+00DE without the multiplication sign U+00D7; each maps to the code point
  32 above it.
\<close>

definition unicode_ToLower :: "char \<Rightarrow> char" where
  "unicode_ToLower c =
     (let n = (of_char c :: nat) in
      if (65 \<le> n \<and> n \<le> 90) \<or> (192 \<le> n \<and> n \<le> 222 \<and> n \<noteq> 215)
      then char_of (n + 32) else c)"

definition ToLower :: "string \<Rightarrow> string" where
  "ToLower s = map unicode_ToLower s"

section \<open>Data model\<close>

text \<open>
  The TypeScript interface \<open>Property\<close>: every field but the identifier is optional. The
  fields the pipeline never reads (company, agent, images, fees and so on) are carried in
  \<open>other\<close>.
\<close>

type_synonym object_id = string

record Ad =
  title :: "string option"
  description :: "string option"
  transactionType :: "string option"

record Property =
  oid :: object_id
  region :: "string option"
  city :: "string option"
  state :: "string option"
  ad :: "Ad option"
  area :: "int option"
  rentPrice :: "int option"
  askingPrice :: "int option"
  totalArea :: "int option"
  suites :: "int option"
  bedrooms :: "int option"
  bathrooms :: "int option"
  parkingSpots :: "int option"
  isExclusive :: "bool option"
  building :: "string option"
  features :: "string list option"
  propertyType :: "string option"
  other :: "(string \<times> string) list"

type_synonym embedding = "real list"

record PropertyWithEmbedding =
  metadata :: Property
  embeddings :: embedding

section \<open>Description builder (TypeScript)\<close>

text \<open>The JavaScript idioms \<open>x || ""\<close> and \<open>x || 0\<close> on an optional field.\<close>

definition or_empty :: "string option \<Rightarrow> string" where
  "or_empty x = (case x of None \<Rightarrow> [] | Some s \<Rightarrow> (if s = [] then [] else s))"

definition or_zero :: "int option \<Rightarrow> int" where
  "or_zero x = (case x of None \<Rightarrow> 0 | Some n \<Rightarrow> (if n = 0 then 0 else n))"

text \<open>\<open>property.ad?.f\<close>: the field of the advertisement, absent when the advertisement is.\<close>

definition ad_field :: "(Ad \<Rightarrow> string option) \<Rightarrow> Property \<Rightarrow> string option" where
  "ad_field f property = (case ad property of None \<Rightarrow> None | Some a \<Rightarrow> f a)"

text \<open>
  \<open>property.ad?.transactionType?.includes("rent")\<close>: undefined, hence falsy, when the
  advertisement or its transaction type is absent.
\<close>

definition includes_rent :: "Property \<Rightarrow> bool" where
  "includes_rent property =
     (case ad_field transactionType property of None \<Rightarrow> False | Some t \<Rightarrow> str_includes t ''rent'')"

definition description_lines :: "Property \<Rightarrow> string list" where
  "description_lines property =
     (let features_text = or_empty (map_option (join '', '') (features property)) in
      [ ''Title: '' @ or_empty (ad_field title property),
        ''Description: '' @ or_empty (ad_field description property),
        ''Location: '' @ or_empty (region property) @ '', '' @ or_empty (city property)
           @ '', '' @ or_empty (state property),
        ''Property Type: '' @ or_empty (propertyType property),
        ''Transaction Type: '' @ or_empty (ad_field transactionType property),
        ''Area: '' @ string_of_int (or_zero (area property)) @ square_metres,
        ''Total Area: '' @ string_of_int (or_zero (totalArea property)) @ square_metres,
        ''Price: '' @ (if includes_rent property
                       then ''Rent $'' @ string_of_int (or_zero (rentPrice property))
                       else ''Sale $'' @ string_of_int (or_zero (askingPrice property))),
        ''Bedrooms: '' @ string_of_int (or_zero (bedrooms property)),
        ''Suites: '' @ string_of_int (or_zero (suites property)),
        ''Bathrooms: '' @ string_of_int (or_zero (bathrooms property)),
        ''Parking Spots: '' @ string_of_int (or_zero (parkingSpots property)),
        ''Building: '' @ or_empty (building property),
        ''Exclusive: '' @ (if isExclusive property = Some True then ''Yes'' else ''No''),
        ''Features: '' @ features_text ])"

definition keep_line :: "string \<Rightarrow> bool" where
  "keep_line line = (trim line \<noteq> [] \<and> \<not> endsWith line '': '')"

definition createPropertyDescription :: "Property \<Rightarrow> string" where
  "createPropertyDescription property =
     join [CHR 0x0A] (filter keep_line (description_lines property))"

section \<open>Description builder (Go)\<close>

text \<open>
  The Go structs: a field absent from the stored document decodes to the zero value of its
  type, and the advertisement to a nil pointer.
\<close>

record GoAd =
  Title :: string
  Description :: string
  TransactionType :: string

record GoProperty =
  ID :: object_id
  Region :: string
  City :: string
  State :: string
  Ad :: "GoAd option"
  Area :: int
  RentPrice :: int
  AskingPrice :: int
  TotalArea :: int
  Suites :: int
  Bedrooms :: int
  Bathrooms :: int
  ParkingSpots :: int
  IsExclusive :: bool
  Building :: string
  Features :: "string list option"
  PropertyType :: string

definition decode_ad :: "Ad \<Rightarrow> GoAd" where
  "decode_ad a =
     \<lparr> Title = (case title a of None \<Rightarrow> [] | Some s \<Rightarrow> s),
       Description = (case description a of None \<Rightarrow> [] | Some s \<Rightarrow> s),
       TransactionType = (case transactionType a of None \<Rightarrow> [] | Some s \<Rightarrow> s) \<rparr>"

definition decode :: "Property \<Rightarrow> GoProperty" where
  "decode p =
     \<lparr> ID = oid p,
       Region = (case region p of None \<Rightarrow> [] | Some s \<Rightarrow> s),
       City = (case city p of None \<Rightarrow> [] | Some s \<Rightarrow> s),
       State = (case state p of None \<Rightarrow> [] | Some s \<Rightarrow> s),
       Ad = map_option decode_ad (ad p),
       Area = (case area p of None \<Rightarrow> 0 | Some n \<Rightarrow> n),
       RentPrice = (case rentPrice p of None \<Rightarrow> 0 | Some n \<Rightarrow> n),
       AskingPrice = (case askingPrice p of None \<Rightarrow> 0 | Some n \<Rightarrow> n),
       TotalArea = (case totalArea p of None \<Rightarrow> 0 | Some n \<Rightarrow> n),
       Suites = (case suites p of None \<Rightarrow> 0 | Some n \<Rightarrow> n),
       Bedrooms = (case bedrooms p of None \<Rightarrow> 0 | Some n \<Rightarrow> n),
       Bathrooms = (case bathrooms p of None \<Rightarrow> 0 | Some n \<Rightarrow> n),
       ParkingSpots = (case parkingSpots p of None \<Rightarrow> 0 | Some n \<Rightarrow> n),
       IsExclusive = (isExclusive p = Some True),
       Building = (case building p of None \<Rightarrow> [] | Some s \<Rightarrow> s),
       Features = features p,
       PropertyType = (case propertyType p of None \<Rightarrow> [] | Some s \<Rightarrow> s) \<rparr>"

definition boolToYesNo :: "bool \<Rightarrow> string" where
  "boolToYesNo v = (if v then ''Yes'' else ''No'')"

text \<open>\<open>lines = append(lines, l)\<close> under a condition.\<close>

definition append_if :: "bool \<Rightarrow> string \<Rightarrow> string list \<Rightarrow> string list" where
  "append_if c l ls = (if c then ls @ [l] else ls)"

definition go_is_rent :: "GoProperty \<Rightarrow> bool" where
  "go_is_rent property =
     (case Ad property of
        None \<Rightarrow> False
      | Some a \<Rightarrow> TransactionType a \<noteq> [] \<and> str_includes (ToLower (TransactionType a)) ''rent'')"

definition go_createPropertyDescription :: "GoProperty \<Rightarrow> string" where
  "go_createPropertyDescription property =
     (let features_text = (case Features property of None \<Rightarrow> [] | Some fs \<Rightarrow> join '', '' fs);
          ad_title = (case Ad property of None \<Rightarrow> [] | Some a \<Rightarrow> Title a);
          ad_description = (case Ad property of None \<Rightarrow> [] | Some a \<Rightarrow> Description a);
          ad_transaction = (case Ad property of None \<Rightarrow> [] | Some a \<Rightarrow> TransactionType a);
          location = TrimSpace (Region property @ '', '' @ City property @ '', '' @ State property);
          l1 = append_if (ad_title \<noteq> []) (''Title: '' @ ad_title) [];
          l2 = append_if (ad_description \<noteq> []) (''Description: '' @ ad_description) l1;
          l3 = append_if (location \<noteq> '',,'') (''Location: '' @ location) l2;
          l4 = append_if (PropertyType property \<noteq> [])
                 (''Property Type: '' @ PropertyType property) l3;
          l5 = append_if (ad_transaction \<noteq> []) (''Transaction Type: '' @ ad_transaction) l4;
          l6 = append_if (Area property > 0)
                 (''Area: '' @ sprintf_2f (Area property) @ go_square_metres) l5;
          l7 = append_if (TotalArea property > 0)
                 (''Total Area: '' @ sprintf_2f (TotalArea property) @ go_square_metres) l6;
          l8 = (if go_is_rent property \<and> RentPrice property > 0
                then l7 @ [''Price: Rent $'' @ sprintf_2f (RentPrice property)]
                else if AskingPrice property > 0
                then l7 @ [''Price: Sale $'' @ sprintf_2f (AskingPrice property)]
                else l7);
          l9 = append_if (Bedrooms property > 0)
                 (''Bedrooms: '' @ string_of_int (Bedrooms property)) l8;
          l10 = append_if (Suites property > 0)
                 (''Suites: '' @ string_of_int (Suites property)) l9;
          l11 = append_if (Bathrooms property > 0)
                 (''Bathrooms: '' @ string_of_int (Bathrooms property)) l10;
          l12 = append_if (ParkingSpots property > 0)
                 (''Parking Spots: '' @ string_of_int (ParkingSpots property)) l11;
          l13 = append_if (Building property \<noteq> []) (''Building: '' @ Building property) l12;
          l14 = l13 @ [''Exclusive: '' @ boolToYesNo (IsExclusive property)];
          l15 = append_if (features_text \<noteq> []) (''Features: '' @ features_text) l14
      in join [CHR 0x0A] l15)"

section \<open>External collaborators and the observable world\<close>

text \<open>
  The embedding provider, the random generator and the two stores are outside the program.
  Their behaviour in one run is given by an environment: what the \<open>i\<close>-th call of each
  returns or throws. A rejected promise or thrown exception is a value of type \<open>error\<close>.
\<close>

datatype error = Error string

record env =
  embedContent :: "nat \<Rightarrow> string \<Rightarrow> embedding option"
    \<comment> \<open>result of the provider call number \<open>i\<close> (from 0) on a text; \<open>None\<close>: it throws\<close>
  random :: "nat \<Rightarrow> real"
    \<comment> \<open>the draw number \<open>i\<close> of \<open>Math.random()\<close>, in \<open>[0, 1)\<close>\<close>
  insertMany_fails :: "nat \<Rightarrow> bool"
    \<comment> \<open>whether the \<open>insertMany\<close> call number \<open>i\<close> throws (nothing is inserted then)\<close>
  findOne_error :: "nat \<Rightarrow> error option"
    \<comment> \<open>the fault of the \<open>findOne\<close> call number \<open>i\<close>, if it throws\<close>
  createIndex_error :: "error option"
  cursor_error :: "error option"
    \<comment> \<open>the fault that ends the scan after the documents read, if any\<close>
  connect_error :: "error option"
    \<comment> \<open>the fault of \<open>client.connect()\<close>, if it throws\<close>
  countDocuments_error :: "error option"

text \<open>What the program writes to \<open>console.error\<close> and \<open>console.warn\<close>.\<close>

datatype log_entry =
    EmbeddingFailedAfter nat
  | ErrorInsertingBatch int
  | ErrorInsertingFinalBatch int
  | FailedToGenerateEmbedding int object_id
  | ErrorProcessingProperties int error
  | WorkerError error

record world =
  target :: "PropertyWithEmbedding list"  \<comment> \<open>the target collection\<close>
  embed_calls :: nat                        \<comment> \<open>provider calls made so far\<close>
  random_draws :: nat
  find_calls :: nat
  insert_calls :: "PropertyWithEmbedding list list"
    \<comment> \<open>the argument of every \<open>insertMany\<close> call so far, failed ones too\<close>
  timeouts :: "real list"                   \<comment> \<open>every delay passed to \<open>setTimeout\<close>, in ms\<close>
  console :: "log_entry list"

definition log_error :: "log_entry \<Rightarrow> world \<Rightarrow> world" where
  "log_error e w = w\<lparr>console := console w @ [e]\<rparr>"

text \<open>\<open>targetCollection.findOne({"metadata._id": id})\<close>.\<close>

definition findOne :: "env \<Rightarrow> object_id \<Rightarrow> world \<Rightarrow> (error + PropertyWithEmbedding option) \<times> world" where
  "findOne e i w =
     (let w' = w\<lparr>find_calls := find_calls w + 1\<rparr> in
      case findOne_error e (find_calls w) of
        Some err \<Rightarrow> (Inl err, w')
      | None \<Rightarrow> (Inr (find (\<lambda>d. oid (metadata d) = i) (target w)), w'))"

text \<open>\<open>targetCollection.insertMany(docs)\<close>: \<open>True\<close> when it resolves.\<close>

definition insertMany :: "env \<Rightarrow> PropertyWithEmbedding list \<Rightarrow> world \<Rightarrow> bool \<times> world" where
  "insertMany e docs w =
     (let n = length (insert_calls w);
          w' = w\<lparr>insert_calls := insert_calls w @ [docs]\<rparr>
      in if insertMany_fails e n then (False, w')
         else (True, w'\<lparr>target := target w' @ docs\<rparr>))"

section \<open>Embedding client\<close>

definition initialBackoff :: real where
  "initialBackoff = 1000"

text \<open>
  The \<open>while\<close> loop of \<open>generateEmbeddingWithRetry\<close>, from a given value of \<open>retries\<close>.
\<close>

function retry_loop :: "env \<Rightarrow> string \<Rightarrow> nat \<Rightarrow> nat \<Rightarrow> world \<Rightarrow> embedding option \<times> world" where
  "retry_loop e text maxRetries retries w =
     (if retries < maxRetries then
        (case embedContent e (embed_calls w) text of
           Some values \<Rightarrow> (Some values, w\<lparr>embed_calls := embed_calls w + 1\<rparr>)
         | None \<Rightarrow>
             (let w1 = w\<lparr>embed_calls := embed_calls w + 1\<rparr>;
                  retries1 = retries + 1
              in if retries1 \<ge> maxRetries
                 then (None, log_error (EmbeddingFailedAfter maxRetries) w1)
                 else
                   (let delay = initialBackoff * 2 ^ (retries1 - 1)
                                  * (0.5 + random e (random_draws w1));
                        w2 = w1\<lparr>random_draws := random_draws w1 + 1,
                                 timeouts := timeouts w1 @ [delay]\<rparr>
                    in retry_loop e text maxRetries retries1 w2)))
      else (None, w))"
  by pat_completeness auto
termination
  by (relation "measure (\<lambda>(e, text, maxRetries, retries, w). maxRetries - retries)") auto

declare retry_loop.simps [simp del]

definition generateEmbeddingWithRetry :: "env \<Rightarrow> string \<Rightarrow> world \<Rightarrow> embedding option \<times> world" where
  "generateEmbeddingWithRetry e text w = retry_loop e text 5 0 w"

section \<open>Worker\<close>

definition BATCH_SIZE :: nat where
  "BATCH_SIZE = 50"

text \<open>
  JavaScript's \<open>%\<close> on integers: the sign of the result is the sign of the dividend, and
  the result is \<open>NaN\<close> (here \<open>None\<close>) when the divisor is zero.
\<close>

definition js_rem :: "int \<Rightarrow> int \<Rightarrow> int option" where
  "js_rem a b = (if b = 0 then None else Some (sgn a * (\<bar>a\<bar> mod \<bar>b\<bar>)))"

text \<open>
  The ownership test of the scan loop, at the 0-based index \<open>currentIndex - 1\<close>: the
  record is skipped when \<open>(currentIndex - 1) % totalWorkers !== (workerId - 1)\<close>.
\<close>

definition ownedBy :: "nat \<Rightarrow> int \<Rightarrow> int \<Rightarrow> bool" where
  "ownedBy index workerId totalWorkers =
     (\<not> (js_rem (int index) totalWorkers \<noteq> Some (workerId - 1)))"

text \<open>
  The block that follows a successful embedding: push the document and, once the batch
  holds \<open>BATCH_SIZE\<close> documents, insert it. The batch is emptied inside the \<open>try\<close>,
  after the insert, so a failed insert leaves it as it is.
\<close>

definition push_document ::
  "env \<Rightarrow> int \<Rightarrow> PropertyWithEmbedding \<Rightarrow> PropertyWithEmbedding list \<Rightarrow> world
     \<Rightarrow> PropertyWithEmbedding list \<times> world" where
  "push_document e workerId doc batchDocuments w =
     (let batch1 = batchDocuments @ [doc] in
      if length batch1 \<ge> BATCH_SIZE then
        (case insertMany e batch1 w of
           (True, w1) \<Rightarrow> ([], w1)
         | (False, w1) \<Rightarrow> (batch1, log_error (ErrorInsertingBatch workerId) w1))
      else (batch1, w))"

text \<open>
  The body of the \<open>for await\<close> loop for one owned record, after the counter has been
  incremented: dedup check, description, embedding, push. The result is the new batch, or
  the fault that leaves the loop.
\<close>

definition process_owned ::
  "env \<Rightarrow> int \<Rightarrow> Property \<Rightarrow> PropertyWithEmbedding list \<Rightarrow> world
     \<Rightarrow> (error + PropertyWithEmbedding list) \<times> world" where
  "process_owned e workerId property batchDocuments w =
     (case findOne e (oid property) w of
        (Inl err, w1) \<Rightarrow> (Inl err, w1)
      | (Inr (Some existing), w1) \<Rightarrow> (Inr batchDocuments, w1)
      | (Inr None, w1) \<Rightarrow>
          (let description = createPropertyDescription property in
           case generateEmbeddingWithRetry e description w1 of
             (Some embedding, w2) \<Rightarrow>
               (let documentWithEmbedding = \<lparr>metadata = property, embeddings = embedding\<rparr>;
                    (batch1, w3) = push_document e workerId documentWithEmbedding batchDocuments w2
                in (Inr batch1, w3))
           | (None, w2) \<Rightarrow>
               (Inr batchDocuments,
                log_error (FailedToGenerateEmbedding workerId (oid property)) w2)))"

text \<open>
  The scan loop over the documents the cursor yields. \<open>currentIndex\<close> and
  \<open>propertiesProcessed\<close> are the values before the record is read.
\<close>

fun scan ::
  "env \<Rightarrow> int \<Rightarrow> int \<Rightarrow> Property list \<Rightarrow> nat \<Rightarrow> nat \<Rightarrow> PropertyWithEmbedding list \<Rightarrow> world
     \<Rightarrow> (error + nat \<times> PropertyWithEmbedding list) \<times> world" where
  "scan e workerId totalWorkers [] currentIndex propertiesProcessed batchDocuments w =
     (Inr (propertiesProcessed, batchDocuments), w)"
| "scan e workerId totalWorkers (property # rest) currentIndex propertiesProcessed batchDocuments w =
     (let currentIndex1 = currentIndex + 1 in
      if \<not> ownedBy (currentIndex1 - 1) workerId totalWorkers
      then scan e workerId totalWorkers rest currentIndex1 propertiesProcessed batchDocuments w
      else
        (let propertiesProcessed1 = propertiesProcessed + 1 in
         case process_owned e workerId property batchDocuments w of
           (Inl err, w1) \<Rightarrow> (Inl err, w1)
         | (Inr batch1, w1) \<Rightarrow>
             scan e workerId totalWorkers rest currentIndex1 propertiesProcessed1 batch1 w1))"

text \<open>The final flush: \<open>if (batchDocuments.length > 0) { try { insertMany } catch { log } }\<close>.\<close>

definition final_flush :: "env \<Rightarrow> int \<Rightarrow> PropertyWithEmbedding list \<Rightarrow> world \<Rightarrow> world" where
  "final_flush e workerId batchDocuments w =
     (if length batchDocuments > 0 then
        (case insertMany e batchDocuments w of
           (True, w1) \<Rightarrow> w1
         | (False, w1) \<Rightarrow> log_error (ErrorInsertingFinalBatch workerId) w1)
      else w)"

text \<open>
  \<open>processProperties\<close>: the returned number, or the fault rethrown by the outer \<open>catch\<close>.
  \<open>source\<close> is the source collection in scan order.
\<close>

definition processProperties ::
  "env \<Rightarrow> int \<Rightarrow> int \<Rightarrow> Property list \<Rightarrow> world \<Rightarrow> (error + nat) \<times> world" where
  "processProperties e workerId totalWorkers source w =
     (case createIndex_error e of
        Some err \<Rightarrow> (Inl err, log_error (ErrorProcessingProperties workerId err) w)
      | None \<Rightarrow>
          (case scan e workerId totalWorkers source 0 0 [] w of
             (Inl err, w1) \<Rightarrow> (Inl err, log_error (ErrorProcessingProperties workerId err) w1)
           | (Inr (propertiesProcessed, batchDocuments), w1) \<Rightarrow>
               (case cursor_error e of
                  Some err \<Rightarrow>
                    (Inl err, log_error (ErrorProcessingProperties workerId err) w1)
                | None \<Rightarrow>
                    (Inr propertiesProcessed, final_flush e workerId batchDocuments w1))))"

section \<open>Worker process and coordinator\<close>

record WorkerMessage =
  msg_type :: string
  workerId :: int
  propertiesProcessed :: "nat option"
  error_message :: "string option"

text \<open>
  \<open>workerProcess\<close>: the message sent to the primary. After an error message the worker
  exits with code 1.
\<close>

definition workerProcess ::
  "env \<Rightarrow> int \<Rightarrow> int \<Rightarrow> Property list \<Rightarrow> world \<Rightarrow> WorkerMessage \<times> world" where
  "workerProcess e wid totalWorkers source w =
     (case connect_error e of
        Some (Error m) \<Rightarrow>
          (\<lparr>msg_type = ''error'', workerId = wid, propertiesProcessed = None,
            error_message = Some m\<rparr>, log_error (WorkerError (Error m)) w)
      | None \<Rightarrow>
          (case processProperties e wid totalWorkers source w of
             (Inr n, w1) \<Rightarrow>
               (\<lparr>msg_type = ''complete'', workerId = wid, propertiesProcessed = Some n,
                 error_message = None\<rparr>, w1)
           | (Inl (Error m), w1) \<Rightarrow>
               (\<lparr>msg_type = ''error'', workerId = wid, propertiesProcessed = None,
                 error_message = Some m\<rparr>, log_error (WorkerError (Error m)) w1)))"

text \<open>
  The primary's state while it handles worker messages. \<open>exit_code\<close> is set when
  \<open>process.exit\<close> has been requested; \<open>primary_errors\<close> are the worker errors written to
  \<open>console.error\<close>.
\<close>

record primary =
  completedWorkers :: nat
  totalProcessed :: nat
  exit_code :: "int option"
  primary_errors :: "(int \<times> string option) list"

definition primary_start :: primary where
  "primary_start = \<lparr>completedWorkers = 0, totalProcessed = 0, exit_code = None, primary_errors = []\<rparr>"

text \<open>
  The handler of \<open>cluster.on('message', ...)\<close>. Once every worker is counted as completed
  the primary closes its connection and calls \<open>process.exit(0)\<close>; the close is taken to
  succeed.
\<close>

definition on_message :: "nat \<Rightarrow> primary \<Rightarrow> WorkerMessage \<Rightarrow> primary" where
  "on_message maxWorkers st message =
     (if msg_type message = ''complete'' then
        (let st1 = st\<lparr>totalProcessed :=
                          totalProcessed st
                            + (case propertiesProcessed message of None \<Rightarrow> 0 | Some n \<Rightarrow> n),
                       completedWorkers := completedWorkers st + 1\<rparr>
         in if completedWorkers st1 = maxWorkers then st1\<lparr>exit_code := Some 0\<rparr> else st1)
      else if msg_type message = ''error'' then
        st\<lparr>primary_errors := primary_errors st @ [(workerId message, error_message message)]\<rparr>
      else st)"

text \<open>
  \<open>primaryProcess\<close>: a fault while connecting or counting exits with code 1 before any
  worker is forked; otherwise the primary handles the workers' messages in the order they
  arrive. An \<open>exit_code\<close> of \<open>None\<close> at the end means that \<open>process.exit\<close> was never
  reached.
\<close>

definition primaryProcess :: "env \<Rightarrow> nat \<Rightarrow> WorkerMessage list \<Rightarrow> primary" where
  "primaryProcess e maxWorkers messages =
     (case connect_error e of
        Some err \<Rightarrow> primary_start\<lparr>exit_code := Some 1\<rparr>
      | None \<Rightarrow>
          (case countDocuments_error e of
             Some err \<Rightarrow> primary_start\<lparr>exit_code := Some 1\<rparr>
           | None \<Rightarrow> foldl (on_message maxWorkers) primary_start messages))"

text \<open>
  The workers of a run are separate processes that share nothing but the target store.
  \<open>run_workers\<close> is the schedule in which the workers \<open>wids\<close> run one after another, each
  with an environment of its own, on one world.
\<close>

definition run_workers ::
  "(int \<Rightarrow> env) \<Rightarrow> int list \<Rightarrow> int \<Rightarrow> Property list \<Rightarrow> world \<Rightarrow> world" where
  "run_workers envs wids totalWorkers source w =
     foldl (\<lambda>w' wid. snd (processProperties (envs wid) wid totalWorkers source w')) w wids"

section \<open>Stubs and sample data\<close>

text \<open>A listing that holds an identifier and nothing else.\<close>

definition listing :: "object_id \<Rightarrow> Property" where
  "listing i =
     \<lparr> oid = i, region = None, city = None, state = None, ad = None, area = None,
       rentPrice = None, askingPrice = None, totalArea = None, suites = None, bedrooms = None,
       bathrooms = None, parkingSpots = None, isExclusive = None, building = None,
       features = None, propertyType = None, other = [] \<rparr>"

text \<open>A listing for sale whose area and bedroom count are zero.\<close>

definition studio :: Property where
  "studio = (listing ''S'')
     \<lparr> ad := Some \<lparr>title = Some ''Studio'', description = None, transactionType = Some ''sale''\<rparr>,
       area := Some 0, bedrooms := Some 0, askingPrice := Some 250000 \<rparr>"

text \<open>A listing whose transaction type is written \<open>Rent\<close>, with both prices set.\<close>

definition rental :: Property where
  "rental = (listing ''R'')
     \<lparr> ad := Some \<lparr>title = Some ''Flat'', description = None, transactionType = Some ''Rent''\<rparr>,
       rentPrice := Some 1500, askingPrice := Some 300000 \<rparr>"

definition enriched :: "object_id \<Rightarrow> PropertyWithEmbedding" where
  "enriched i = \<lparr>metadata = listing i, embeddings = [1, 0, 0]\<rparr>"

definition fresh_world :: world where
  "fresh_world = \<lparr>target = [], embed_calls = 0, random_draws = 0, find_calls = 0,
     insert_calls = [], timeouts = [], console = []\<rparr>"

text \<open>
  An environment without store faults: the provider throws on its first \<open>failures\<close> calls
  and returns the vector \<open>[1, 0, 0]\<close> afterwards, every random draw is \<open>0.75\<close>, and the
  \<open>insertMany\<close> calls whose numbers are listed throw.
\<close>

definition stub_env :: "nat \<Rightarrow> nat list \<Rightarrow> env" where
  "stub_env failures failing_inserts =
     \<lparr> embedContent = (\<lambda>i t. if i < failures then None else Some [1, 0, 0]),
       random = (\<lambda>i. 3 / 4),
       insertMany_fails = (\<lambda>i. i \<in> set failing_inserts),
       findOne_error = (\<lambda>i. None),
       createIndex_error = None,
       cursor_error = None,
       connect_error = None,
       countDocuments_error = None \<rparr>"

text \<open>Fifty-one listings, with the identifiers \<open>0\<close> to \<open>50\<close>.\<close>

definition listings51 :: "Property list" where
  "listings51 = map (\<lambda>n. listing (string_of_nat n)) [0..<51]"

definition six_listings :: "Property list" where
  "six_listings = map listing [''a'', ''b'', ''c'', ''d'', ''e'', ''f'']"

text \<open>
  The messages of a run with four workers over six listings in which the scan of worker 1
  ends with a cursor fault.
\<close>

definition messages_one_fault :: "WorkerMessage list" where
  "messages_one_fault =
     [ fst (workerProcess ((stub_env 0 [])\<lparr>cursor_error := Some (Error ''cursor'')\<rparr>) 1 4
              six_listings fresh_world),
       fst (workerProcess (stub_env 0 []) 2 4 six_listings fresh_world),
       fst (workerProcess (stub_env 0 []) 3 4 six_listings fresh_world),
       fst (workerProcess (stub_env 0 []) 4 4 six_listings fresh_world) ]"

section \<open>Facts used to run the model on sample data\<close>

lemma oid_listing: "oid (listing i) = i"
  by (simp add: listing_def)

lemmas run_simps = processProperties_def scan.simps Let_def ownedBy_def js_rem_def process_owned_def
  findOne_def generateEmbeddingWithRetry_def retry_loop.simps push_document_def insertMany_def
  BATCH_SIZE_def log_error_def final_flush_def stub_env_def fresh_world_def oid_listing
  enriched_def initialBackoff_def

lemmas description_simps = createPropertyDescription_def description_lines_def keep_line_def
  trim_def endsWith_def js_white_space_def or_empty_def or_zero_def ad_field_def includes_rent_def
  string_of_int_def string_of_nat.simps digit_char_def square_metres_def Let_def listing_def

lemmas go_description_simps = go_createPropertyDescription_def decode_def decode_ad_def
  append_if_def go_is_rent_def boolToYesNo_def TrimSpace_def unicode_IsSpace_def
  sprintf_2f_def string_of_int_def string_of_nat.simps digit_char_def go_square_metres_def
  Let_def listing_def

lemma ToLower_Rent: "ToLower ''Rent'' = ''rent''"
  by code_simp

section \<open>The embedding client\<close>

text \<open>
  When every remaining attempt fails, the loop makes exactly the remaining number of
  provider calls, returns nothing and touches neither store.
\<close>

lemma retry_loop_exhausted:
  "retries < maxRetries \<Longrightarrow>
   (\<forall>i < maxRetries - retries. embedContent e (embed_calls w + i) t = None) \<Longrightarrow>
   \<exists>w'. retry_loop e t maxRetries retries w = (None, w')
        \<and> embed_calls w' = embed_calls w + (maxRetries - retries)
        \<and> insert_calls w' = insert_calls w \<and> target w' = target w
        \<and> find_calls w' = find_calls w"
proof (induction e t maxRetries retries w rule: retry_loop.induct)
  case (1 e t maxRetries retries w)
  from "1.prems" have here: "embedContent e (embed_calls w) t = None"
    by (metis add.right_neutral zero_less_diff)
  show ?case
  proof (cases "retries + 1 \<ge> maxRetries")
    case True
    with "1.prems" have "maxRetries - retries = 1" by simp
    with True "1.prems" here show ?thesis
      by (subst retry_loop.simps) (simp add: log_error_def Let_def)
  next
    case False
    define w2 where "w2 = w\<lparr>embed_calls := embed_calls w + 1,
        random_draws := random_draws w + 1,
        timeouts := timeouts w @ [initialBackoff * 2 ^ (retries + 1 - 1) * (0.5 + random e (random_draws w))]\<rparr>"
    have step: "retry_loop e t maxRetries retries w = retry_loop e t maxRetries (retries + 1) w2"
      using False "1.prems" here by (subst retry_loop.simps) (simp add: Let_def w2_def)
    have rest: "\<forall>i < maxRetries - (retries + 1). embedContent e (embed_calls w2 + i) t = None"
    proof (intro allI impI)
      fix i assume "i < maxRetries - (retries + 1)"
      then have "Suc i < maxRetries - retries" by simp
      with "1.prems" have "embedContent e (embed_calls w + Suc i) t = None" by blast
      then show "embedContent e (embed_calls w2 + i) t = None" by (simp add: w2_def)
    qed
    have lt: "retries + 1 < maxRetries" using False by simp
    have "\<exists>w'. retry_loop e t maxRetries (retries + 1) w2 = (None, w')
        \<and> embed_calls w' = embed_calls w2 + (maxRetries - (retries + 1))
        \<and> insert_calls w' = insert_calls w2 \<and> target w' = target w2
        \<and> find_calls w' = find_calls w2"
      using "1.IH" [OF _ here refl refl _ refl refl lt] False "1.prems" rest
      by (simp add: w2_def)
    then show ?thesis using step lt by (auto simp: w2_def)
  qed
qed


lemma retry_loop_succeeds:
  "retries + k < maxRetries \<Longrightarrow>
   (\<forall>i < k. embedContent e (embed_calls w + i) t = None) \<Longrightarrow>
   embedContent e (embed_calls w + k) t = Some v \<Longrightarrow>
   \<exists>w'. retry_loop e t maxRetries retries w = (Some v, w')
        \<and> embed_calls w' = embed_calls w + k + 1
        \<and> insert_calls w' = insert_calls w \<and> target w' = target w
        \<and> find_calls w' = find_calls w"
proof (induction k arbitrary: retries w)
  case 0
  then show ?case by (subst retry_loop.simps) simp
next
  case (Suc k)
  from Suc.prems have "embedContent e (embed_calls w + 0) t = None" by blast
  then have here: "embedContent e (embed_calls w) t = None" by simp
  define w2 where "w2 = w\<lparr>embed_calls := embed_calls w + 1,
      random_draws := random_draws w + 1,
      timeouts := timeouts w @ [initialBackoff * 2 ^ (retries + 1 - 1) * (0.5 + random e (random_draws w))]\<rparr>"
  have step: "retry_loop e t maxRetries retries w = retry_loop e t maxRetries (retries + 1) w2"
    using Suc.prems here by (subst retry_loop.simps) (simp add: Let_def w2_def)
  have a: "(retries + 1) + k < maxRetries" using Suc.prems by simp
  have b: "\<forall>i < k. embedContent e (embed_calls w2 + i) t = None"
  proof (intro allI impI)
    fix i assume "i < k"
    then have "Suc i < Suc k" by simp
    with Suc.prems have "embedContent e (embed_calls w + Suc i) t = None" by blast
    then show "embedContent e (embed_calls w2 + i) t = None" by (simp add: w2_def)
  qed
  have c: "embedContent e (embed_calls w2 + k) t = Some v"
    using Suc.prems by (simp add: w2_def)
  from Suc.IH [OF a b c] show ?case using step by (auto simp: w2_def)
qed

lemma generate_exhausted:
  assumes "\<forall>i < 5. embedContent e (embed_calls w + i) t = None"
  shows "\<exists>w'. generateEmbeddingWithRetry e t w = (None, w')
        \<and> embed_calls w' = embed_calls w + 5
        \<and> insert_calls w' = insert_calls w \<and> target w' = target w
        \<and> find_calls w' = find_calls w"
  using retry_loop_exhausted [of 0 5 e w t] assms
  by (simp add: generateEmbeddingWithRetry_def)

lemma generate_succeeds:
  assumes "k < 5" "\<forall>i < k. embedContent e (embed_calls w + i) t = None"
    "embedContent e (embed_calls w + k) t = Some v"
  shows "\<exists>w'. generateEmbeddingWithRetry e t w = (Some v, w')
        \<and> embed_calls w' = embed_calls w + k + 1
        \<and> insert_calls w' = insert_calls w \<and> target w' = target w
        \<and> find_calls w' = find_calls w"
  using retry_loop_succeeds [of 0 k 5 e w t v] assms
  by (simp add: generateEmbeddingWithRetry_def)

section \<open>The scan loop\<close>

lemma push_document_cases:
  "push_document e wid doc batch w = (batch', w') \<Longrightarrow>
   embed_calls w' = embed_calls w \<and>
   (batch' = batch @ [doc] \<and> insert_calls w' = insert_calls w \<and> target w' = target w
    \<or> insert_calls w' = insert_calls w @ [batch @ [doc]])"
  by (auto simp: push_document_def insertMany_def Let_def log_error_def split: if_splits)

text \<open>
  A failed insert of a full batch leaves the batch as it was after the push: the next
  push starts from all of its documents.
\<close>

lemma push_document_keeps_failed_batch:
  "BATCH_SIZE \<le> length batch + 1 \<Longrightarrow> insertMany_fails e (length (insert_calls w)) \<Longrightarrow>
   fst (push_document e wid doc batch w) = batch @ [doc]"
  by (simp add: push_document_def insertMany_def Let_def)

lemma process_owned_existing:
  assumes "\<exists>d\<in>set (target w). oid (metadata d) = oid p"
  shows "\<exists>r. process_owned e wid p batch w = (r, w\<lparr>find_calls := find_calls w + 1\<rparr>)
           \<and> (r = Inr batch \<or> (\<exists>err. r = Inl err))"
proof -
  from assms have "find (\<lambda>d. oid (metadata d) = oid p) (target w) \<noteq> None"
    by (auto simp: find_None_iff)
  then obtain d where "find (\<lambda>d. oid (metadata d) = oid p) (target w) = Some d" by auto
  then show ?thesis
    by (cases "findOne_error e (find_calls w)") (simp_all add: process_owned_def findOne_def Let_def)
qed

lemma scan_all_existing:
  "\<forall>p\<in>set src. \<exists>d\<in>set (target w). oid (metadata d) = oid p \<Longrightarrow>
   \<exists>r w'. scan e wid tw src ci pp batch w = (r, w')
      \<and> target w' = target w \<and> embed_calls w' = embed_calls w
      \<and> insert_calls w' = insert_calls w \<and> console w' = console w
      \<and> (\<forall>n b. r = Inr (n, b) \<longrightarrow> b = batch)"
proof (induction src arbitrary: ci pp w)
  case Nil
  then show ?case by simp
next
  case (Cons p src)
  show ?case
  proof (cases "ownedBy ci wid tw")
    case False
    with Cons.IH [of w "ci + 1" pp] Cons.prems show ?thesis by simp
  next
    case True
    let ?w1 = "w\<lparr>find_calls := find_calls w + 1\<rparr>"
    from Cons.prems have "\<exists>d\<in>set (target w). oid (metadata d) = oid p" by simp
    from process_owned_existing [OF this, of e wid batch]
    obtain r where r: "process_owned e wid p batch w = (r, ?w1)"
      "r = Inr batch \<or> (\<exists>err. r = Inl err)" by blast
    from r(2) show ?thesis
    proof
      assume "r = Inr batch"
      moreover have "\<forall>p\<in>set src. \<exists>d\<in>set (target ?w1). oid (metadata d) = oid p"
        using Cons.prems by simp
      from Cons.IH [OF this, of "ci + 1" "pp + 1"]
      have "\<exists>r w'. scan e wid tw src (ci + 1) (pp + 1) batch ?w1 = (r, w')
          \<and> target w' = target w \<and> embed_calls w' = embed_calls w
          \<and> insert_calls w' = insert_calls w \<and> console w' = console w
          \<and> (\<forall>n b. r = Inr (n, b) \<longrightarrow> b = batch)" by simp
      ultimately show ?thesis using True r(1) by (simp add: Let_def)
    next
      assume "\<exists>err. r = Inl err"
      then show ?thesis using True r(1) by (auto simp: Let_def)
    qed
  qed
qed

lemma scan_count:
  "scan e wid tw src ci pp batch w = (Inr (pp', b'), w') \<Longrightarrow>
   pp' = pp + length (filter (\<lambda>i. ownedBy i wid tw) [ci..<ci + length src])"
proof (induction src arbitrary: ci pp batch w)
  case Nil
  then show ?case by simp
next
  case (Cons p src)
  have upt: "[ci..<ci + length (p # src)] = ci # [ci + 1..<(ci + 1) + length src]"
    by (simp del: upt_Suc add: upt_conv_Cons)
  show ?case
  proof (cases "ownedBy ci wid tw")
    case False
    with Cons.prems have "scan e wid tw src (ci + 1) pp batch w = (Inr (pp', b'), w')" by simp
    from Cons.IH [OF this] False show ?thesis by (simp only: upt) simp
  next
    case True
    obtain r w1 where po: "process_owned e wid p batch w = (r, w1)"
      by (cases "process_owned e wid p batch w")
    show ?thesis
    proof (cases r)
      case (Inl err)
      with True po Cons.prems show ?thesis by (simp add: Let_def)
    next
      case (Inr b1)
      with True po Cons.prems
      have "scan e wid tw src (ci + 1) (pp + 1) b1 w1 = (Inr (pp', b'), w')" by (simp add: Let_def)
      from Cons.IH [OF this] True show ?thesis by (simp only: upt) simp
    qed
  qed
qed

lemma process_owned_no_fault:
  "findOne_error e (find_calls w) = None \<Longrightarrow> \<exists>b w'. process_owned e wid p batch w = (Inr b, w')"
  by (auto simp: process_owned_def findOne_def Let_def split: option.splits prod.splits)

lemma scan_no_fault:
  "\<forall>i. findOne_error e i = None \<Longrightarrow> \<exists>n b w'. scan e wid tw src ci pp batch w = (Inr (n, b), w')"
proof (induction src arbitrary: ci pp batch w)
  case Nil
  then show ?case by simp
next
  case (Cons p src)
  show ?case
  proof (cases "ownedBy ci wid tw")
    case False
    with Cons show ?thesis by simp
  next
    case True
    from Cons.prems have "findOne_error e (find_calls w) = None" by simp
    from process_owned_no_fault [OF this, of wid p batch]
    obtain b1 w1 where "process_owned e wid p batch w = (Inr b1, w1)" by blast
    with True Cons.IH [OF Cons.prems, of "ci + 1" "pp + 1" b1 w1] show ?thesis
      by (simp add: Let_def)
  qed
qed

section \<open>The partition of scan indices\<close>

lemma js_rem_nonneg: "0 < b \<Longrightarrow> js_rem (int i) b = Some (int i mod b)"
  by (cases "i = 0") (simp_all add: js_rem_def)

lemma ownedBy_iff: "1 \<le> N \<Longrightarrow> ownedBy i w N \<longleftrightarrow> w = int i mod N + 1"
  by (auto simp: ownedBy_def js_rem_nonneg)

lemma mset_concat_map_append:
  "mset (concat (map (\<lambda>w. f w @ g w) ws)) = mset (concat (map f ws)) + mset (concat (map g ws))"
  by (induction ws) simp_all

lemma concat_map_single:
  "distinct ws \<Longrightarrow> v \<in> set ws \<Longrightarrow> concat (map (\<lambda>w. if w = v then [x] else []) ws) = [x]"
proof (induction ws)
  case Nil
  then show ?case by simp
next
  case (Cons a ws)
  show ?case
  proof (cases "a = v")
    case True
    with Cons.prems have "v \<notin> set ws" by simp
    then have "concat (map (\<lambda>w. if w = v then [x] else []) ws) = []"
      by (induction ws) auto
    with True show ?thesis by simp
  next
    case False
    with Cons show ?thesis by simp
  qed
qed

lemma owners_of_index:
  assumes "1 \<le> N"
  shows "concat (map (\<lambda>w. filter (\<lambda>i. ownedBy i w N) [M]) [1..N]) = [M]"
proof -
  have "0 < N" using assms by simp
  then have "int M mod N < N" by (rule pos_mod_bound)
  then have "int M mod N + 1 \<le> N" by linarith
  moreover have "1 \<le> int M mod N + 1" using \<open>0 < N\<close> by simp
  ultimately have v: "int M mod N + 1 \<in> set [1..N]" by simp
  have "(\<lambda>w. filter (\<lambda>i. ownedBy i w N) [M]) = (\<lambda>w. if w = int M mod N + 1 then [M] else [])"
    using assms by (auto simp: ownedBy_iff fun_eq_iff)
  then show ?thesis using concat_map_single [OF _ v, of M] by simp
qed

text \<open>
  Claim C8. For a worker count \<open>N \<ge> 1\<close> and a source of \<open>M\<close> records, every 0-based scan
  index below \<open>M\<close> is owned by exactly one worker of \<open>1..N\<close>, and the owned index lists
  of the workers \<open>1..N\<close>, put together, hold every index of \<open>0..M-1\<close> exactly once.
\<close>

theorem ownedBy_partition:
  assumes "1 \<le> N"
  shows "(\<forall>i<M. \<exists>!w. 1 \<le> w \<and> w \<le> N \<and> ownedBy i w N) \<and>
         mset (concat (map (\<lambda>w. filter (\<lambda>i. ownedBy i w N) [0..<M]) [1..N])) = mset [0..<M]"
proof
  show "\<forall>i<M. \<exists>!w. 1 \<le> w \<and> w \<le> N \<and> ownedBy i w N"
  proof (intro allI impI)
    fix i
    have "0 < N" using assms by simp
    then have "int i mod N < N" by (rule pos_mod_bound)
    then have "int i mod N + 1 \<le> N" by linarith
    moreover have "1 \<le> int i mod N + 1" using \<open>0 < N\<close> by simp
    ultimately have "1 \<le> int i mod N + 1 \<and> int i mod N + 1 \<le> N" by simp
    then show "\<exists>!w. 1 \<le> w \<and> w \<le> N \<and> ownedBy i w N"
      using assms by (auto simp: ownedBy_iff)
  qed
next
  show "mset (concat (map (\<lambda>w. filter (\<lambda>i. ownedBy i w N) [0..<M]) [1..N])) = mset [0..<M]"
  proof (induction M)
    case 0
    then show ?case by simp
  next
    case (Suc M)
    have "mset (concat (map (\<lambda>w. filter (\<lambda>i. ownedBy i w N) [0..<Suc M]) [1..N]))
        = mset (concat (map (\<lambda>w. filter (\<lambda>i. ownedBy i w N) [0..<M]
                                   @ filter (\<lambda>i. ownedBy i w N) [M]) [1..N]))"
      by simp
    also have "\<dots> = mset (concat (map (\<lambda>w. filter (\<lambda>i. ownedBy i w N) [0..<M]) [1..N]))
                   + mset (concat (map (\<lambda>w. filter (\<lambda>i. ownedBy i w N) [M]) [1..N]))"
      by (rule mset_concat_map_append)
    also have "\<dots> = mset [0..<M] + mset [M]"
      using Suc owners_of_index [OF assms] by simp
    finally show ?case by simp
  qed
qed

theorem ownedBy_partition_witness:
  "(1::int) \<le> 4 \<and> (7::nat) < 10 \<and> (\<exists>!w. 1 \<le> w \<and> w \<le> 4 \<and> ownedBy 7 w 4) \<and>
   mset (concat (map (\<lambda>w. filter (\<lambda>i. ownedBy i w 4) [0..<10]) [1..4])) = mset [0..<10]"
  using ownedBy_partition [of 4 10] by simp

section \<open>The count a worker reports\<close>

text \<open>
  Claim C1 says that the number \<open>processProperties\<close> returns is the number of records
  handed to the batch writer. It is not: the counter is incremented as soon as a record
  is found to be owned, before the dedup check and before the embedding is requested.
  With one worker and one listing, the returned count is 1 although no document is ever
  inserted, both when the target already holds the listing and when the provider fails
  on all five attempts.
\<close>

theorem processed_count_counterexample:
  "fst (processProperties (stub_env 0 []) 1 1 [listing ''A'']
          (fresh_world\<lparr>target := [enriched ''A'']\<rparr>)) = Inr 1
   \<and> insert_calls (snd (processProperties (stub_env 0 []) 1 1 [listing ''A'']
          (fresh_world\<lparr>target := [enriched ''A'']\<rparr>))) = []
   \<and> fst (processProperties (stub_env 5 []) 1 1 [listing ''A''] fresh_world) = Inr 1
   \<and> insert_calls (snd (processProperties (stub_env 5 []) 1 1 [listing ''A''] fresh_world)) = []
   \<and> embed_calls (snd (processProperties (stub_env 5 []) 1 1 [listing ''A''] fresh_world)) = 5"
  by (simp add: run_simps)

text \<open>
  Claim C1, amended. Whenever \<open>processProperties\<close> returns a number, it is the number of
  scan indices of the source that the worker owns, whether or not the records at these
  indices were skipped by the dedup check or lost their embedding; and without a fault of
  the index creation, the cursor or a lookup it does return that number.
\<close>

theorem processed_count_is_owned_count:
  "(fst (processProperties e wid tw source w) = Inr n \<longrightarrow>
      n = length (filter (\<lambda>i. ownedBy i wid tw) [0..<length source]))
   \<and> (createIndex_error e = None \<and> cursor_error e = None \<and> (\<forall>i. findOne_error e i = None) \<longrightarrow>
      fst (processProperties e wid tw source w)
        = Inr (length (filter (\<lambda>i. ownedBy i wid tw) [0..<length source])))"
proof -
  have A: "n = length (filter (\<lambda>i. ownedBy i wid tw) [0..<length source])"
    if "fst (processProperties e wid tw source w) = Inr n" for n
  proof -
    obtain r w1 where s: "scan e wid tw source 0 0 [] w = (r, w1)"
      by (cases "scan e wid tw source 0 0 [] w")
    from that s obtain b where "r = Inr (n, b)"
      by (cases r; cases "createIndex_error e"; cases "cursor_error e")
         (auto simp: processProperties_def)
    with s scan_count [of e wid tw source 0 0 "[]" w n b w1] show ?thesis by simp
  qed
  have B: "fst (processProperties e wid tw source w)
        = Inr (length (filter (\<lambda>i. ownedBy i wid tw) [0..<length source]))"
    if nf: "createIndex_error e = None \<and> cursor_error e = None \<and> (\<forall>i. findOne_error e i = None)"
  proof -
    from nf scan_no_fault [of e wid tw source 0 0 "[]" w]
    obtain m b w1 where s: "scan e wid tw source 0 0 [] w = (Inr (m, b), w1)" by blast
    with nf have "fst (processProperties e wid tw source w) = Inr m"
      by (simp add: processProperties_def)
    with A [of m] show ?thesis by simp
  qed
  from A B show ?thesis by blast
qed

theorem processed_count_is_owned_count_witness:
  "createIndex_error (stub_env 0 []) = None \<and> cursor_error (stub_env 0 []) = None
   \<and> fst (processProperties (stub_env 0 []) 2 4 six_listings fresh_world) = Inr 2"
  using processed_count_is_owned_count [of "stub_env 0 []" 2 4 six_listings fresh_world 2]
  by (simp add: stub_env_def six_listings_def ownedBy_def js_rem_def upt_conv_Cons del: upt_Suc)

section \<open>The description builders\<close>

text \<open>The Go builder leaves the zero fields of \<open>studio\<close> out.\<close>

lemma go_omits_zero_fields:
  "go_createPropertyDescription (decode studio) =
     join [CHR 0x0A]
       [ ''Title: Studio'', ''Location: , ,'', ''Transaction Type: sale'',
         ''Price: Sale $250000.00'', ''Exclusive: No'' ]"
  by (simp add: go_description_simps studio_def)

text \<open>
  Claim C2 says that the description builder leaves out every field that is empty, absent
  or zero. The TypeScript builder filters its lines by \<open>endsWith(": ")\<close> only, and a
  numeric field is rendered through \<open>|| 0\<close>: for the listing \<open>studio\<close>, whose area and
  bedroom count are 0 and whose other numeric fields are absent, the text has an area
  line and a bedrooms line with the value 0, a zero line for each absent numeric field,
  and a location line of separators only.
\<close>

theorem zero_fields_are_rendered:
  "createPropertyDescription studio =
     join [CHR 0x0A]
       [ ''Title: Studio'',
         ''Location: , , '',
         ''Transaction Type: sale'',
         ''Area: 0'' @ square_metres,
         ''Total Area: 0'' @ square_metres,
         ''Price: Sale $250000'',
         ''Bedrooms: 0'',
         ''Suites: 0'',
         ''Bathrooms: 0'',
         ''Parking Spots: 0'',
         ''Exclusive: No'' ]"
  by (simp add: description_simps studio_def)

section \<open>A failed insert of a full batch\<close>

text \<open>
  Claim C3 says that a batch whose insert fails in mid-stream is dropped and never
  inserted again. In the TypeScript worker the batch is emptied only after a successful
  insert: with one worker, 51 new listings and a first \<open>insertMany\<close> that throws, the
  failure is logged, and the second \<open>insertMany\<close> call holds all 51 documents, the 50 of
  the failed batch among them.
\<close>

theorem failed_batch_is_inserted_again:
  "insert_calls (snd (processProperties (stub_env 0 [0]) 1 1 listings51 fresh_world))
     = [ map (\<lambda>p. \<lparr>metadata = p, embeddings = [1, 0, 0]\<rparr>) (take 50 listings51),
         map (\<lambda>p. \<lparr>metadata = p, embeddings = [1, 0, 0]\<rparr>) listings51 ]
   \<and> console (snd (processProperties (stub_env 0 [0]) 1 1 listings51 fresh_world))
     = [ErrorInsertingBatch 1]
   \<and> fst (processProperties (stub_env 0 [0]) 1 1 listings51 fresh_world) = Inr 51"
  by (simp add: run_simps listings51_def upt_conv_Cons del: upt_Suc)

section \<open>The coordinator\<close>

text \<open>
  When every message of a run is a \<open>complete\<close> message, the primary sums the counts
  and exits with code 0 on the last one.
\<close>

lemma on_message_complete_below:
  assumes "msg_type m = ''complete''" "completedWorkers st + 1 \<noteq> N"
  shows "on_message N st m =
           st\<lparr>totalProcessed := totalProcessed st
                  + (case propertiesProcessed m of None \<Rightarrow> 0 | Some n \<Rightarrow> n),
              completedWorkers := completedWorkers st + 1\<rparr>"
  using assms by (simp add: on_message_def Let_def)

lemma foldl_complete_below:
  "\<forall>m\<in>set ms. msg_type m = ''complete'' \<Longrightarrow> completedWorkers st + length ms < N \<Longrightarrow>
   foldl (on_message N) st ms =
     st\<lparr>totalProcessed := totalProcessed st
            + sum_list (map (\<lambda>m. case propertiesProcessed m of None \<Rightarrow> 0 | Some n \<Rightarrow> n) ms),
        completedWorkers := completedWorkers st + length ms\<rparr>"
proof (induction ms arbitrary: st)
  case Nil
  then show ?case by simp
next
  case (Cons m ms)
  let ?st1 = "st\<lparr>totalProcessed := totalProcessed st
                  + (case propertiesProcessed m of None \<Rightarrow> 0 | Some n \<Rightarrow> n),
              completedWorkers := completedWorkers st + 1\<rparr>"
  from Cons.prems have step: "on_message N st m = ?st1"
    by (intro on_message_complete_below) simp_all
  from Cons.prems have "\<forall>m\<in>set ms. msg_type m = ''complete''"
    "completedWorkers ?st1 + length ms < N" by simp_all
  from Cons.IH [OF this] step show ?case by (simp add: add.assoc)
qed

lemma primary_exits_when_all_complete:
  assumes "connect_error e = None" "countDocuments_error e = None"
    and "\<forall>m\<in>set (ms @ [m]). msg_type m = ''complete''"
  shows "exit_code (primaryProcess e (length (ms @ [m])) (ms @ [m])) = Some 0
       \<and> totalProcessed (primaryProcess e (length (ms @ [m])) (ms @ [m]))
           = sum_list (map (\<lambda>m. case propertiesProcessed m of None \<Rightarrow> 0 | Some n \<Rightarrow> n) (ms @ [m]))"
proof -
  let ?N = "length (ms @ [m])"
  from assms(3) have "\<forall>m\<in>set ms. msg_type m = ''complete''"
    "completedWorkers primary_start + length ms < ?N"
    by (simp_all add: primary_start_def)
  from foldl_complete_below [OF this]
  have "foldl (on_message ?N) primary_start (ms @ [m]) =
        on_message ?N (primary_start\<lparr>totalProcessed := totalProcessed primary_start
            + sum_list (map (\<lambda>m. case propertiesProcessed m of None \<Rightarrow> 0 | Some n \<Rightarrow> n) ms),
        completedWorkers := completedWorkers primary_start + length ms\<rparr>) m"
    by simp
  moreover from assms(3) have "msg_type m = ''complete''" by simp
  ultimately show ?thesis
    using assms(1,2) by (simp add: primaryProcess_def on_message_def Let_def primary_start_def)
qed

text \<open>
  Claim C4 says that the coordinator terminates once every worker has reported, also when
  some report an error. The TypeScript primary counts a worker as completed only on a
  \<open>complete\<close> message: in a run of four workers in which worker 1 reports a cursor fault
  and the others complete, the error is logged and the counts of the others are summed,
  but the completed count stays at 3 and \<open>process.exit\<close> is never reached.
\<close>

theorem primary_never_exits_after_worker_error:
  "map msg_type messages_one_fault = [''error'', ''complete'', ''complete'', ''complete'']
   \<and> exit_code (primaryProcess (stub_env 0 []) 4 messages_one_fault) = None
   \<and> completedWorkers (primaryProcess (stub_env 0 []) 4 messages_one_fault) = 3
   \<and> totalProcessed (primaryProcess (stub_env 0 []) 4 messages_one_fault) = 4
   \<and> primary_errors (primaryProcess (stub_env 0 []) 4 messages_one_fault) = [(1, Some ''cursor'')]"
  by (simp add: run_simps messages_one_fault_def six_listings_def workerProcess_def
      primaryProcess_def primary_start_def on_message_def)

section \<open>Backoff delays\<close>

text \<open>
  The delays of a call whose five attempts all fail: the delay after the failed attempt
  \<open>j + 1\<close> is the base delay \<open>1000 * 2^j\<close> times \<open>0.5\<close> plus the random draw, for
  \<open>j\<close> from 0 to 3, and none follows the fifth.
\<close>

lemma retry_loop_delays:
  "retries < maxRetries \<Longrightarrow>
   (\<forall>i < maxRetries - retries. embedContent e (embed_calls w + i) t = None) \<Longrightarrow>
   timeouts (snd (retry_loop e t maxRetries retries w)) =
     timeouts w @ map (\<lambda>j. initialBackoff * 2 ^ (retries + j)
                              * (0.5 + random e (random_draws w + j)))
                      [0..<maxRetries - retries - 1]"
proof (induction e t maxRetries retries w rule: retry_loop.induct)
  case (1 e t maxRetries retries w)
  from "1.prems" have here: "embedContent e (embed_calls w) t = None"
    by (metis add.right_neutral zero_less_diff)
  show ?case
  proof (cases "retries + 1 \<ge> maxRetries")
    case True
    with "1.prems" have "maxRetries - retries = 1" by simp
    with True "1.prems" here show ?thesis
      by (subst retry_loop.simps) (simp add: log_error_def Let_def)
  next
    case False
    define w2 where "w2 = w\<lparr>embed_calls := embed_calls w + 1,
        random_draws := random_draws w + 1,
        timeouts := timeouts w @ [initialBackoff * 2 ^ (retries + 1 - 1) * (0.5 + random e (random_draws w))]\<rparr>"
    have step: "retry_loop e t maxRetries retries w = retry_loop e t maxRetries (retries + 1) w2"
      using False "1.prems" here by (subst retry_loop.simps) (simp add: Let_def w2_def)
    have rest: "\<forall>i < maxRetries - (retries + 1). embedContent e (embed_calls w2 + i) t = None"
    proof (intro allI impI)
      fix i assume "i < maxRetries - (retries + 1)"
      then have "Suc i < maxRetries - retries" by simp
      with "1.prems" have "embedContent e (embed_calls w + Suc i) t = None" by blast
      then show "embedContent e (embed_calls w2 + i) t = None" by (simp add: w2_def)
    qed
    have lt: "retries + 1 < maxRetries" using False by simp
    have ih: "timeouts (snd (retry_loop e t maxRetries (retries + 1) w2)) =
          timeouts w2 @ map (\<lambda>j. initialBackoff * 2 ^ (retries + 1 + j)
                              * (0.5 + random e (random_draws w2 + j)))
                      [0..<maxRetries - (retries + 1) - 1]"
      using "1.IH" [OF _ here refl refl _ refl refl lt] False "1.prems" rest
      by (simp add: w2_def)
    from lt obtain n where n: "maxRetries - retries - 1 = Suc n" "maxRetries - (retries + 1) - 1 = n"
      by (cases "maxRetries - retries - 1") simp_all
    show ?thesis
      unfolding step ih n
      by (simp add: w2_def map_upt_Suc del: upt_Suc)
  qed
qed

lemma backoff_delays:
  assumes "\<forall>i < 5. embedContent e (embed_calls w + i) t = None"
  shows "timeouts (snd (generateEmbeddingWithRetry e t w)) =
     timeouts w @ map (\<lambda>j. initialBackoff * 2 ^ j * (0.5 + random e (random_draws w + j))) [0..<4]"
  using retry_loop_delays [of 0 5 e w t] assms
  by (simp add: generateEmbeddingWithRetry_def)

text \<open>
  Claim C5 says that the delay after the failed attempt \<open>k\<close> is
  \<open>1000 * 2^(k-1) * jitter\<close> with a jitter in \<open>[0.5, 1.0]\<close>, and that the last attempt is
  followed by no delay. The TypeScript client multiplies by \<open>0.5 + Math.random()\<close>, which
  lies in \<open>[0.5, 1.5)\<close>: with every draw equal to 0.75 and a provider that fails five
  times, the four delays are 1250, 2500, 5000 and 10000 ms, each 1.25 times the base
  delay of its attempt; the fifth failure returns at once.
\<close>

theorem jitter_exceeds_one:
  "timeouts (snd (generateEmbeddingWithRetry (stub_env 5 []) ''text'' fresh_world))
     = [1250, 2500, 5000, 10000]
   \<and> fst (generateEmbeddingWithRetry (stub_env 5 []) ''text'' fresh_world) = None
   \<and> initialBackoff * 2 ^ (1 - 1) * 1.0 < (1250 :: real)"
  by (simp add: run_simps)

section \<open>Retry policy\<close>

text \<open>
  Claim C6. For every text, a provider that fails on five calls in a row makes the client
  return a failure after exactly five calls, and one that fails \<open>k < 5\<close> times and then
  succeeds makes it return the vector after exactly \<open>k + 1\<close> calls. For an owned record
  that the target does not hold yet, the worker in the first case keeps its batch, makes
  no insert and leaves the target as it is; in the second case the document of the record
  and the vector is appended to the batch, which is either kept for later or passed to
  \<open>insertMany\<close> at once.
\<close>

theorem retry_policy:
  assumes "findOne_error e (find_calls w) = None"
    and "find (\<lambda>d. oid (metadata d) = oid p) (target w) = None"
  shows "((\<forall>i < 5. embedContent e (embed_calls w + i) t = None) \<longrightarrow>
            (\<exists>w'. generateEmbeddingWithRetry e t w = (None, w')
                  \<and> embed_calls w' = embed_calls w + 5))
       \<and> (k < 5 \<and> (\<forall>i < k. embedContent e (embed_calls w + i) t = None)
             \<and> embedContent e (embed_calls w + k) t = Some v \<longrightarrow>
            (\<exists>w'. generateEmbeddingWithRetry e t w = (Some v, w')
                  \<and> embed_calls w' = embed_calls w + k + 1))
       \<and> ((\<forall>i < 5. embedContent e (embed_calls w + i) (createPropertyDescription p) = None) \<longrightarrow>
            (\<exists>w'. process_owned e wid p batch w = (Inr batch, w')
                  \<and> embed_calls w' = embed_calls w + 5
                  \<and> insert_calls w' = insert_calls w \<and> target w' = target w))
       \<and> (k < 5 \<and> (\<forall>i < k. embedContent e (embed_calls w + i) (createPropertyDescription p) = None)
             \<and> embedContent e (embed_calls w + k) (createPropertyDescription p) = Some v \<longrightarrow>
            (\<exists>batch' w'. process_owned e wid p batch w = (Inr batch', w')
                  \<and> embed_calls w' = embed_calls w + k + 1
                  \<and> (batch' = batch @ [\<lparr>metadata = p, embeddings = v\<rparr>]
                        \<and> insert_calls w' = insert_calls w
                      \<or> insert_calls w' = insert_calls w
                           @ [batch @ [\<lparr>metadata = p, embeddings = v\<rparr>]])))"
proof (intro conjI impI)
  assume "\<forall>i < 5. embedContent e (embed_calls w + i) t = None"
  from generate_exhausted [OF this]
  show "\<exists>w'. generateEmbeddingWithRetry e t w = (None, w') \<and> embed_calls w' = embed_calls w + 5"
    by blast
next
  assume "k < 5 \<and> (\<forall>i < k. embedContent e (embed_calls w + i) t = None)
             \<and> embedContent e (embed_calls w + k) t = Some v"
  then show "\<exists>w'. generateEmbeddingWithRetry e t w = (Some v, w')
                  \<and> embed_calls w' = embed_calls w + k + 1"
    using generate_succeeds [of k e w t v] by blast
next
  let ?w1 = "w\<lparr>find_calls := find_calls w + 1\<rparr>"
  assume "\<forall>i < 5. embedContent e (embed_calls w + i) (createPropertyDescription p) = None"
  then have "\<forall>i < 5. embedContent e (embed_calls ?w1 + i) (createPropertyDescription p) = None"
    by simp
  from generate_exhausted [OF this] obtain w2 where
    g: "generateEmbeddingWithRetry e (createPropertyDescription p) ?w1 = (None, w2)"
      "embed_calls w2 = embed_calls w + 5" "insert_calls w2 = insert_calls w" "target w2 = target w"
    by auto
  show "\<exists>w'. process_owned e wid p batch w = (Inr batch, w')
                  \<and> embed_calls w' = embed_calls w + 5
                  \<and> insert_calls w' = insert_calls w \<and> target w' = target w"
    using assms g by (simp add: process_owned_def findOne_def Let_def log_error_def)
next
  let ?w1 = "w\<lparr>find_calls := find_calls w + 1\<rparr>"
  let ?doc = "\<lparr>metadata = p, embeddings = v\<rparr>"
  assume a: "k < 5 \<and> (\<forall>i < k. embedContent e (embed_calls w + i) (createPropertyDescription p) = None)
             \<and> embedContent e (embed_calls w + k) (createPropertyDescription p) = Some v"
  then have "k < 5" "\<forall>i < k. embedContent e (embed_calls ?w1 + i) (createPropertyDescription p) = None"
    "embedContent e (embed_calls ?w1 + k) (createPropertyDescription p) = Some v"
    by simp_all
  from generate_succeeds [OF this] obtain w2 where
    g: "generateEmbeddingWithRetry e (createPropertyDescription p) ?w1 = (Some v, w2)"
      "embed_calls w2 = embed_calls w + k + 1" "insert_calls w2 = insert_calls w" "target w2 = target w"
    by auto
  obtain b3 w3 where p3: "push_document e wid ?doc batch w2 = (b3, w3)"
    by (cases "push_document e wid ?doc batch w2")
  have po: "process_owned e wid p batch w = (Inr b3, w3)"
    using assms g p3 by (simp add: process_owned_def findOne_def Let_def)
  from push_document_cases [OF p3] g po
  show "\<exists>batch' w'. process_owned e wid p batch w = (Inr batch', w')
                  \<and> embed_calls w' = embed_calls w + k + 1
                  \<and> (batch' = batch @ [?doc] \<and> insert_calls w' = insert_calls w
                      \<or> insert_calls w' = insert_calls w @ [batch @ [?doc]])"
    by auto
qed

theorem retry_policy_witness:
  "(\<exists>w'. generateEmbeddingWithRetry (stub_env 5 []) ''text'' fresh_world = (None, w')
         \<and> embed_calls w' = 5)
   \<and> (\<exists>w'. process_owned (stub_env 5 []) 1 (listing ''A'') [] fresh_world = (Inr [], w')
         \<and> embed_calls w' = 5 \<and> insert_calls w' = [] \<and> target w' = [])
   \<and> (\<exists>w'. generateEmbeddingWithRetry (stub_env 2 []) ''text'' fresh_world = (Some [1, 0, 0], w')
         \<and> embed_calls w' = 3)
   \<and> (\<exists>batch' w'. process_owned (stub_env 2 []) 1 (listing ''A'') [] fresh_world = (Inr batch', w')
         \<and> embed_calls w' = 3
         \<and> (batch' = [enriched ''A''] \<and> insert_calls w' = []
             \<or> insert_calls w' = [[enriched ''A'']]))"
  using retry_policy [of "stub_env 5 []" fresh_world "listing ''A''" "''text''" 0 "[1, 0, 0]" 1 "[]"]
    retry_policy [of "stub_env 2 []" fresh_world "listing ''A''" "''text''" 2 "[1, 0, 0]" 1 "[]"]
  by (simp add: stub_env_def fresh_world_def enriched_def numeral_3_eq_3)

section \<open>Running again over an enriched source\<close>

lemma worker_rerun_frame:
  assumes "\<forall>p\<in>set source. \<exists>d\<in>set (target w). oid (metadata d) = oid p"
  shows "embed_calls (snd (processProperties e wid tw source w)) = embed_calls w
       \<and> insert_calls (snd (processProperties e wid tw source w)) = insert_calls w
       \<and> target (snd (processProperties e wid tw source w)) = target w"
proof (cases "createIndex_error e")
  case (Some err)
  then show ?thesis by (simp add: processProperties_def log_error_def)
next
  case None
  from scan_all_existing [OF assms, of e wid tw 0 0 "[]"]
  obtain r w' where s: "scan e wid tw source 0 0 [] w = (r, w')"
    "target w' = target w" "embed_calls w' = embed_calls w" "insert_calls w' = insert_calls w"
    "\<forall>n b. r = Inr (n, b) \<longrightarrow> b = []" by blast
  show ?thesis
  proof (cases r)
    case (Inl err)
    with None s show ?thesis by (simp add: processProperties_def log_error_def)
  next
    case (Inr x)
    obtain n b where x: "x = (n, b)" by (cases x)
    with Inr s(5) have "b = []" by simp
    with None s Inr x show ?thesis
      by (cases "cursor_error e") (simp_all add: processProperties_def log_error_def final_flush_def)
  qed
qed

lemma run_workers_rerun_frame:
  "\<forall>p\<in>set source. \<exists>d\<in>set (target w). oid (metadata d) = oid p \<Longrightarrow>
   embed_calls (run_workers envs wids tw source w) = embed_calls w
   \<and> insert_calls (run_workers envs wids tw source w) = insert_calls w
   \<and> target (run_workers envs wids tw source w) = target w"
proof (induction wids arbitrary: w)
  case Nil
  then show ?case by (simp add: run_workers_def)
next
  case (Cons wid wids)
  let ?w1 = "snd (processProperties (envs wid) wid tw source w)"
  from worker_rerun_frame [OF Cons.prems, of "envs wid" wid tw]
  have f: "embed_calls ?w1 = embed_calls w" "insert_calls ?w1 = insert_calls w"
    "target ?w1 = target w" by simp_all
  with Cons.prems have "\<forall>p\<in>set source. \<exists>d\<in>set (target ?w1). oid (metadata d) = oid p"
    by simp
  from Cons.IH [OF this] f
  have "embed_calls (run_workers envs wids tw source ?w1) = embed_calls w
      \<and> insert_calls (run_workers envs wids tw source ?w1) = insert_calls w
      \<and> target (run_workers envs wids tw source ?w1) = target w" by simp
  moreover have "run_workers envs (wid # wids) tw source w = run_workers envs wids tw source ?w1"
    by (simp add: run_workers_def)
  ultimately show ?case by simp
qed

text \<open>
  Claim C7. When the target holds an entry for the identifier of every source record, a
  worker, whatever its assignment, makes no provider call and no insert, and leaves the
  target as it is: the dedup check finds every owned record. The same holds for the
  workers of a whole run, one after another.
\<close>

theorem rerun_makes_no_calls:
  assumes "\<forall>p\<in>set source. \<exists>d\<in>set (target w). oid (metadata d) = oid p"
  shows "embed_calls (snd (processProperties e wid tw source w)) = embed_calls w
       \<and> insert_calls (snd (processProperties e wid tw source w)) = insert_calls w
       \<and> target (snd (processProperties e wid tw source w)) = target w
       \<and> embed_calls (run_workers envs wids tw source w) = embed_calls w
       \<and> insert_calls (run_workers envs wids tw source w) = insert_calls w
       \<and> target (run_workers envs wids tw source w) = target w"
  using worker_rerun_frame [OF assms, of e wid tw]
    run_workers_rerun_frame [OF assms, of envs wids tw]
  by simp

theorem rerun_makes_no_calls_witness:
  "embed_calls (snd (processProperties (stub_env 0 []) 1 4 six_listings
      (fresh_world\<lparr>target := map enriched [''a'', ''b'', ''c'', ''d'', ''e'', ''f'']\<rparr>))) = 0
   \<and> insert_calls (snd (processProperties (stub_env 0 []) 1 4 six_listings
      (fresh_world\<lparr>target := map enriched [''a'', ''b'', ''c'', ''d'', ''e'', ''f'']\<rparr>))) = []
   \<and> embed_calls (run_workers (\<lambda>wid. stub_env 0 []) [1, 2, 3, 4] 4 six_listings
      (fresh_world\<lparr>target := map enriched [''a'', ''b'', ''c'', ''d'', ''e'', ''f'']\<rparr>)) = 0
   \<and> insert_calls (run_workers (\<lambda>wid. stub_env 0 []) [1, 2, 3, 4] 4 six_listings
      (fresh_world\<lparr>target := map enriched [''a'', ''b'', ''c'', ''d'', ''e'', ''f'']\<rparr>)) = []
   \<and> target (run_workers (\<lambda>wid. stub_env 0 []) [1, 2, 3, 4] 4 six_listings
      (fresh_world\<lparr>target := map enriched [''a'', ''b'', ''c'', ''d'', ''e'', ''f'']\<rparr>))
     = map enriched [''a'', ''b'', ''c'', ''d'', ''e'', ''f'']"
  using rerun_makes_no_calls [of six_listings
      "fresh_world\<lparr>target := map enriched [''a'', ''b'', ''c'', ''d'', ''e'', ''f'']\<rparr>"
      "stub_env 0 []" 1 4 "\<lambda>wid. stub_env 0 []" "[1, 2, 3, 4]"]
  by (simp add: six_listings_def enriched_def oid_listing fresh_world_def)

section \<open>The price line\<close>

text \<open>
  Claim C9 says that the price line uses the rent price when the transaction type contains
  \<open>rent\<close> in any letter casing. The TypeScript builder tests \<open>includes("rent")\<close> on the
  text as it is: for the listing \<open>rental\<close>, whose transaction type is \<open>Rent\<close>, the price
  line is the sale price.
\<close>

theorem rent_test_is_case_sensitive:
  "createPropertyDescription rental =
     join [CHR 0x0A]
       [ ''Title: Flat'',
         ''Location: , , '',
         ''Transaction Type: Rent'',
         ''Area: 0'' @ square_metres,
         ''Total Area: 0'' @ square_metres,
         ''Price: Sale $300000'',
         ''Bedrooms: 0'',
         ''Suites: 0'',
         ''Bathrooms: 0'',
         ''Parking Spots: 0'',
         ''Exclusive: No'' ]"
  by (simp add: description_simps rental_def)

section \<open>The two description builders compared\<close>

text \<open>
  Claim C10 says that the TypeScript and the Go description builders produce the same text
  for every record. They do not: for a listing that holds an identifier only, the
  TypeScript text has a zero line for each numeric field and the Go text has none; and for
  the listing \<open>rental\<close> the Go text has the rent price where the TypeScript text has the
  sale price.
\<close>

theorem builders_differ:
  "createPropertyDescription (listing ''A'') =
     join [CHR 0x0A]
       [ ''Location: , , '',
         ''Area: 0'' @ square_metres,
         ''Total Area: 0'' @ square_metres,
         ''Price: Sale $0'',
         ''Bedrooms: 0'',
         ''Suites: 0'',
         ''Bathrooms: 0'',
         ''Parking Spots: 0'',
         ''Exclusive: No'' ]
   \<and> go_createPropertyDescription (decode (listing ''A'')) =
     join [CHR 0x0A] [''Location: , ,'', ''Exclusive: No'']
   \<and> createPropertyDescription (listing ''A'') \<noteq> go_createPropertyDescription (decode (listing ''A''))
   \<and> go_createPropertyDescription (decode rental) =
     join [CHR 0x0A]
       [ ''Title: Flat'',
         ''Location: , ,'',
         ''Transaction Type: Rent'',
         ''Price: Rent $1500.00'',
         ''Exclusive: No'' ]"
proof -
  have ts: "createPropertyDescription (listing ''A'') =
     join [CHR 0x0A]
       [ ''Location: , , '', ''Area: 0'' @ square_metres, ''Total Area: 0'' @ square_metres,
         ''Price: Sale $0'', ''Bedrooms: 0'', ''Suites: 0'', ''Bathrooms: 0'',
         ''Parking Spots: 0'', ''Exclusive: No'' ]"
    by (simp add: description_simps)
  have go: "go_createPropertyDescription (decode (listing ''A'')) =
     join [CHR 0x0A] [''Location: , ,'', ''Exclusive: No'']"
    by (simp add: go_description_simps)
  have go_rental: "go_createPropertyDescription (decode rental) =
     join [CHR 0x0A]
       [ ''Title: Flat'', ''Location: , ,'', ''Transaction Type: Rent'',
         ''Price: Rent $1500.00'', ''Exclusive: No'' ]"
    by (simp add: go_description_simps rental_def ToLower_Rent)
  have "createPropertyDescription (listing ''A'') \<noteq> go_createPropertyDescription (decode (listing ''A''))"
    unfolding ts go by (simp add: square_metres_def)
  with ts go go_rental show ?thesis by blast
qed

end
